theory Spec2Isabelle
  imports Main
begin

section \<open>IA Interact: a shallow embedding of \<^verbatim>\<open>ia-interact.py\<close>\<close>

text \<open>
  The program is a sequence of calls to the \<^verbatim>\<open>requests\<close> library, reads of the local
  file system and of two environment variables, and \<^verbatim>\<open>print\<close> statements. The
  embedding makes each of these explicit:
  \<^item> a call of \<^verbatim>\<open>requests\<close> is a \<open>request\<close> value handed to a parameter \<open>net\<close>, which
    stands for the library, the network and the remote service together and answers with
    an \<open>outcome\<close> (an exception or a response) and a new remote state;
  \<^item> the process state records the remote state, the requests issued so far and the
    lines printed so far;
  \<^item> Python strings are \<open>string\<close>, the bytes of a file are a list of characters (a
    \<open>char\<close> is one byte).
  The progress bar (\<^verbatim>\<open>tqdm\<close>) writes to the terminal only and is left out.
\<close>

subsection \<open>Identifier extraction\<close>

definition marker :: string where
  "marker = ''archive.org/details/''"

text \<open>
  \<^verbatim>\<open>re.search(r"archive\.org/details/([^/]+)", repo_link)\<close>: the pattern is the literal
  marker followed by a greedy, non-empty run of characters other than \<open>/\<close>, which is
  group 1. \<open>match_here\<close> is the match anchored at the start of its argument;
  \<open>re_search\<close> tries every start position from left to right and returns group 1 of the
  first match.
\<close>

definition match_here :: "string \<Rightarrow> string option" where
  "match_here s =
     (if take (length marker) s = marker
      then (let g = takeWhile (\<lambda>c. c \<noteq> CHR ''/'') (drop (length marker) s)
            in if g = [] then None else Some g)
      else None)"

fun re_search :: "string \<Rightarrow> string option" where
  "re_search [] = match_here []"
| "re_search (c # cs) =
     (case match_here (c # cs) of Some g \<Rightarrow> Some g | None \<Rightarrow> re_search cs)"

text \<open>
  A printed line is kept as the pieces of its format string: literal text and the
  values Python formats into it.
\<close>

datatype exn = SSLError string | RequestException string | OtherException string

datatype piece = Txt string | Num nat | Exc exn | Dict "(string \<times> string) list"

type_synonym line = "piece list"

text \<open>\<open>get_repo_identifier\<close> returns the lines it prints and its result.\<close>

definition get_repo_identifier :: "string \<Rightarrow> line list \<times> string option" where
  "get_repo_identifier repo_link =
     (case re_search repo_link of
        Some g \<Rightarrow> ([], Some g)
      | None \<Rightarrow> ([[Txt ''Invalid Internet Archive URL. Please provide a valid link.'']], None))"

text \<open>The marker occurs in \<open>s\<close> at position \<open>i\<close>; the segment that follows it there.\<close>

definition marker_at :: "string \<Rightarrow> nat \<Rightarrow> bool" where
  "marker_at s i = (take (length marker) (drop i s) = marker)"

definition segment_at :: "string \<Rightarrow> nat \<Rightarrow> string" where
  "segment_at s i = takeWhile (\<lambda>c. c \<noteq> CHR ''/'') (drop (i + length marker) s)"

subsection \<open>Requests, responses and the process state\<close>

datatype http_method = GET | PUT | DELETE | POST

datatype body = NoBody | Bytes string | Form "(string \<times> string) list"

text \<open>
  The arguments of \<^verbatim>\<open>Retry(...)\<close> at lines 34 to 39. What \<^verbatim>\<open>urllib3\<close> does with them is
  not part of this program; the record only says which requests go through the session
  that mounts the adapter.
\<close>

record retry =
  total :: nat
  backoff_factor :: nat
  status_forcelist :: "nat list"
  allowed_methods :: "string list"

definition retry_strategy :: retry where
  "retry_strategy =
     \<lparr>total = 5, backoff_factor = 2, status_forcelist = [500, 502, 503, 504],
      allowed_methods = [''PUT'']\<rparr>"

text \<open>
  One call of \<^verbatim>\<open>requests\<close>: the method, the URL and the keyword arguments
  \<^verbatim>\<open>headers\<close>, \<^verbatim>\<open>data\<close> and \<^verbatim>\<open>timeout\<close> (\<open>None\<close> when the call passes none), and the
  retry configuration of the session the call goes through (\<open>None\<close> for the module-level
  functions \<^verbatim>\<open>requests.get\<close>, \<^verbatim>\<open>requests.put\<close>, \<^verbatim>\<open>requests.delete\<close>, \<^verbatim>\<open>requests.post\<close>).
\<close>

record request =
  rq_method :: http_method
  rq_url :: string
  rq_headers :: "(string \<times> string) list"
  rq_data :: body
  rq_timeout :: "(nat \<times> nat) option"
  rq_retries :: "retry option"

text \<open>
  A file record of the metadata document is a dictionary with string values. The
  \<open>json\<close> field of a response is what \<^verbatim>\<open>response.json()\<close> gives: an exception, or the
  document, of which only \<^verbatim>\<open>data.get("files")\<close> is read.
\<close>

type_synonym file_record = "string \<rightharpoonup> string"

record response =
  status_code :: nat
  reason :: string
  json :: "exn + file_record list option"

datatype outcome = Raises exn | Responds response

record 'w state =
  remote :: 'w
  issued :: "request list"
  printed :: "line list"

type_synonym 'w net = "request \<Rightarrow> 'w \<Rightarrow> outcome \<times> 'w"

definition print :: "line \<Rightarrow> 'w state \<Rightarrow> 'w state" where
  "print l st = st\<lparr>printed := printed st @ [l]\<rparr>"

definition send :: "'w net \<Rightarrow> request \<Rightarrow> 'w state \<Rightarrow> outcome \<times> 'w state" where
  "send net rq st =
     (let (oc, w) = net rq (remote st)
      in (oc, st\<lparr>remote := w, issued := issued st @ [rq]\<rparr>))"

text \<open>How a statement ends: with an exception, with \<^verbatim>\<open>return\<close>, or by falling through.\<close>

datatype 'a flow = Raise exn | Return 'a | Next

subsection \<open>Environment and local files\<close>

record env =
  S3_ACCESS_KEY :: "string option"
  S3_SECRET_KEY :: "string option"

text \<open>\<^verbatim>\<open>not v\<close> for the result of \<^verbatim>\<open>os.getenv\<close>: the variable is unset or empty.\<close>

definition falsy :: "string option \<Rightarrow> bool" where
  "falsy v = (v = None \<or> v = Some [])"

text \<open>The header dictionary of lines 44 to 47, 117 to 120 and 250 to 253.\<close>

definition s3_headers :: "string \<Rightarrow> string \<Rightarrow> (string \<times> string) list" where
  "s3_headers access_key secret_key =
     [(''x-amz-auto-make-bucket'', ''1''),
      (''Authorization'', ''AWS '' @ access_key @ '':'' @ secret_key)]"

text \<open>
  What a path names on the local file system: nothing (\<^verbatim>\<open>os.path.exists\<close> is false and
  \<^verbatim>\<open>os.path.getsize\<close> raises), something \<^verbatim>\<open>open(path, "rb")\<close> raises on (a directory, a
  file without read permission), or a file with its bytes. The string is the message
  of the exception.
\<close>

datatype local_file = Missing string | Unreadable string | Content string

definition exists :: "(string \<Rightarrow> local_file) \<Rightarrow> string \<Rightarrow> bool" where
  "exists fs p = (case fs p of Missing _ \<Rightarrow> False | _ \<Rightarrow> True)"

text \<open>\<^verbatim>\<open>os.path.basename\<close> on a POSIX path: what follows the last \<open>/\<close>.\<close>

definition basename :: "string \<Rightarrow> string" where
  "basename p = rev (takeWhile (\<lambda>c. c \<noteq> CHR ''/'') (rev p))"

subsection \<open>Chunked upload of one file\<close>

definition chunk_size :: nat where
  "chunk_size = 1024 * 1024 * 2"

text \<open>The call at line 56.\<close>

definition chunk_put :: "string \<Rightarrow> (string \<times> string) list \<Rightarrow> string \<Rightarrow> request" where
  "chunk_put upload_url hs chunk =
     \<lparr>rq_method = PUT, rq_url = upload_url, rq_headers = hs, rq_data = Bytes chunk,
      rq_timeout = Some (60, 600), rq_retries = Some retry_strategy\<rparr>"

text \<open>
  The \<^verbatim>\<open>while True\<close> loop of lines 52 to 60; \<open>f\<close> is what is left of the file to read.
  \<^verbatim>\<open>f.read(n)\<close> returns the next \<open>n\<close> bytes, fewer at the end of the file.
\<close>

function upload_loop ::
  "'w net \<Rightarrow> string \<Rightarrow> string \<Rightarrow> (string \<times> string) list \<Rightarrow> string \<Rightarrow> 'w state
     \<Rightarrow> bool flow \<times> 'w state" where
  "upload_loop net file_path upload_url hs f st =
     (let chunk = take chunk_size f in
      if chunk = [] then (Next, st)
      else
        (case send net (chunk_put upload_url hs chunk) st of
           (Raises e, st') \<Rightarrow> (Raise e, st')
         | (Responds r, st') \<Rightarrow>
             if status_code r \<noteq> 200
             then (Return False,
                   print [Txt ''Error uploading '', Txt file_path, Txt '': '',
                          Num (status_code r), Txt '' '', Txt (reason r)] st')
             else upload_loop net file_path upload_url hs (drop chunk_size f) st'))"
  by pat_completeness auto
termination
  by (relation "measure (\<lambda>(net, file_path, upload_url, hs, f, st). length f)")
    (auto simp: chunk_size_def)

declare upload_loop.simps [simp del]

text \<open>The three \<^verbatim>\<open>except\<close> clauses of lines 63 to 71; each returns \<^verbatim>\<open>False\<close>.\<close>

definition upload_handlers :: "exn \<Rightarrow> 'w state \<Rightarrow> 'w state" where
  "upload_handlers e st =
     (case e of
        SSLError _ \<Rightarrow> print [Txt ''SSL Error during upload: '', Exc e] st
      | RequestException _ \<Rightarrow> print [Txt ''Request error: '', Exc e] st
      | OtherException _ \<Rightarrow> print [Txt ''Unexpected error: '', Exc e] st)"

text \<open>
  \<^verbatim>\<open>os.path.getsize\<close> at line 32 stands before the \<^verbatim>\<open>try\<close>: on a missing file the call
  raises. \<^verbatim>\<open>open\<close> at line 51 stands inside it.
\<close>

definition upload_file_with_progress ::
  "'w net \<Rightarrow> env \<Rightarrow> (string \<Rightarrow> local_file) \<Rightarrow> string \<Rightarrow> string \<Rightarrow> string \<Rightarrow> 'w state
     \<Rightarrow> bool flow \<times> 'w state" where
  "upload_file_with_progress net ev fs identifier file_path directory st =
     (let access_key = S3_ACCESS_KEY ev; secret_key = S3_SECRET_KEY ev in
      if falsy access_key \<or> falsy secret_key
      then (Return False,
            print [Txt ''S3 access key or secret key is missing. Please set them as environment variables.''] st)
      else
        (let upload_url = ''https://s3.us.archive.org/'' @ identifier @ ''/'' @ directory
                            @ ''/'' @ basename file_path;
             hs = s3_headers (the access_key) (the secret_key)
         in case fs file_path of
              Missing m \<Rightarrow> (Raise (OtherException m), st)
            | Unreadable m \<Rightarrow> (Return False, upload_handlers (OtherException m) st)
            | Content f \<Rightarrow>
                (case upload_loop net file_path upload_url hs f st of
                   (Raise e, st') \<Rightarrow> (Return False, upload_handlers e st')
                 | (Return b, st') \<Rightarrow> (Return b, st')
                 | (Next, st') \<Rightarrow>
                     (Return True, print [Txt ''Successfully uploaded '', Txt file_path] st'))))"

subsection \<open>Listing\<close>

text \<open>\<^verbatim>\<open>str.split(sep)\<close> for a one-character separator, and \<^verbatim>\<open>str.endswith\<close>.\<close>

fun split_on :: "char \<Rightarrow> string \<Rightarrow> string list" where
  "split_on c [] = [[]]"
| "split_on c (x # xs) =
     (if x = c then [] # split_on c xs
      else (x # hd (split_on c xs)) # tl (split_on c xs))"

definition endswith :: "string \<Rightarrow> string \<Rightarrow> bool" where
  "endswith s suffix =
     (length suffix \<le> length s \<and> drop (length s - length suffix) s = suffix)"

text \<open>The \<^verbatim>\<open>for f in files\<close> loop of lines 88 to 95, with \<open>file_list\<close> as it grows.\<close>

fun collect_names :: "file_record list \<Rightarrow> string list \<Rightarrow> string list" where
  "collect_names [] file_list = file_list"
| "collect_names (f # files) file_list =
     (case f ''name'' of
        None \<Rightarrow> collect_names files file_list
      | Some name \<Rightarrow>
          (let parts = split_on (CHR ''/'') name in
           if list_ex (\<lambda>part. endswith part ''.thumbs'') parts
           then collect_names files file_list
           else collect_names files (file_list @ [name])))"

text \<open>The \<^verbatim>\<open>enumerate(file_list, start=1)\<close> loop of lines 98 and 99.\<close>

fun print_listing :: "nat \<Rightarrow> string list \<Rightarrow> 'w state \<Rightarrow> 'w state" where
  "print_listing idx [] st = st"
| "print_listing idx (name # names) st =
     print_listing (Suc idx) names (print [Num idx, Txt ''. '', Txt name] st)"

definition list_repository_files ::
  "'w net \<Rightarrow> string \<Rightarrow> 'w state \<Rightarrow> string list \<times> 'w state" where
  "list_repository_files net identifier st =
     (let url = ''https://archive.org/metadata/'' @ identifier in
      case send net \<lparr>rq_method = GET, rq_url = url, rq_headers = [], rq_data = NoBody,
                      rq_timeout = None, rq_retries = None\<rparr> st of
        (Raises e, st') \<Rightarrow> ([], print [Txt ''Error listing files:'', Txt '' '', Exc e] st')
      | (Responds r, st') \<Rightarrow>
          if status_code r \<noteq> 200
          then ([], print [Txt ''Error fetching metadata: '', Num (status_code r), Txt '' '',
                           Txt (reason r)] st')
          else
            (case json r of
               Inl e \<Rightarrow> ([], print [Txt ''Error listing files:'', Txt '' '', Exc e] st')
             | Inr data \<Rightarrow>
                 (let files = (case data of None \<Rightarrow> [] | Some fl \<Rightarrow> fl);
                      file_list = collect_names files []
                  in if file_list \<noteq> []
                     then (file_list,
                           print_listing 1 file_list (print [Txt ''Files in repository:''] st'))
                     else (file_list, print [Txt ''No files found in repository.''] st'))))"

subsection \<open>Delete and move\<close>

text \<open>The call at line 122, with the URL of line 116 and the headers of lines 117 to 120.\<close>

definition delete_request :: "env \<Rightarrow> string \<Rightarrow> string \<Rightarrow> request" where
  "delete_request ev identifier file_path =
     (let delete_url = ''https://s3.us.archive.org/'' @ identifier @ ''/'' @ file_path;
          hs = s3_headers (the (S3_ACCESS_KEY ev)) (the (S3_SECRET_KEY ev))
      in \<lparr>rq_method = DELETE, rq_url = delete_url, rq_headers = hs,
          rq_data = NoBody, rq_timeout = None, rq_retries = None\<rparr>)"

definition delete_file ::
  "'w net \<Rightarrow> env \<Rightarrow> string \<Rightarrow> string \<Rightarrow> 'w state \<Rightarrow> bool \<times> 'w state" where
  "delete_file net ev identifier file_path st =
     (let access_key = S3_ACCESS_KEY ev; secret_key = S3_SECRET_KEY ev in
      if falsy access_key \<or> falsy secret_key
      then (False, print [Txt ''S3 keys missing. Cannot delete file.''] st)
      else
        (case send net (delete_request ev identifier file_path) st of
           (Raises e, st') \<Rightarrow>
             (False, print [Txt ''Error during deletion:'', Txt '' '', Exc e] st')
         | (Responds r, st') \<Rightarrow>
             if status_code r = 200 \<or> status_code r = 204
                then (True, print [Txt (''File '' @ [CHR 0x27]), Txt file_path,
                                   Txt ''' deleted successfully.''] st')
                else (False, print [Txt ''Failed to delete '', Txt file_path, Txt '': '',
                                    Num (status_code r), Txt '' '', Txt (reason r)] st')))"

text \<open>Lines 144 and 145: a directory is joined to the file name only when it is not empty.\<close>

definition source_path :: "string \<Rightarrow> string \<Rightarrow> string" where
  "source_path source_dir file_name =
     (if source_dir \<noteq> [] then source_dir @ ''/'' @ file_name else file_name)"

definition destination_path :: "string \<Rightarrow> string \<Rightarrow> string" where
  "destination_path target_dir file_name =
     (if target_dir \<noteq> [] then target_dir @ ''/'' @ file_name else file_name)"

text \<open>The call at line 155, with the headers of lines 149 to 153.\<close>

definition copy_put :: "env \<Rightarrow> string \<Rightarrow> string \<Rightarrow> string \<Rightarrow> string \<Rightarrow> request" where
  "copy_put ev identifier file_name source_dir target_dir =
     (let copy_url = ''https://s3.us.archive.org/'' @ identifier @ ''/''
                       @ destination_path target_dir file_name;
          source_url = ''/'' @ identifier @ ''/'' @ source_path source_dir file_name
      in \<lparr>rq_method = PUT, rq_url = copy_url,
          rq_headers = s3_headers (the (S3_ACCESS_KEY ev)) (the (S3_SECRET_KEY ev))
                         @ [(''x-amz-copy-source'', source_url)],
          rq_data = NoBody, rq_timeout = None, rq_retries = None\<rparr>)"

definition move_file ::
  "'w net \<Rightarrow> env \<Rightarrow> string \<Rightarrow> string \<Rightarrow> string \<Rightarrow> string \<Rightarrow> 'w state \<Rightarrow> bool \<times> 'w state" where
  "move_file net ev identifier file_name source_dir target_dir st =
     (let access_key = S3_ACCESS_KEY ev; secret_key = S3_SECRET_KEY ev in
      if falsy access_key \<or> falsy secret_key
      then (False, print [Txt ''S3 keys missing. Cannot move file.''] st)
      else
        (let src = source_path source_dir file_name;
             dst = destination_path target_dir file_name
         in case send net (copy_put ev identifier file_name source_dir target_dir) st of
              (Raises e, st') \<Rightarrow>
                (False, print [Txt ''Error during file move (copy-delete):'', Txt '' '', Exc e] st')
            | (Responds r, st') \<Rightarrow>
                if \<not> (status_code r = 200 \<or> status_code r = 201)
                then (False, print [Txt ''Error copying file from '', Txt src, Txt '' to '',
                                    Txt dst, Txt '': '', Num (status_code r), Txt '' '',
                                    Txt (reason r)] st')
                else
                  (let st1 = print [Txt ''File copied from '', Txt src, Txt '' to '', Txt dst,
                                    Txt '' successfully.''] st'
                   in case delete_file net ev identifier src st1 of
                        (True, st2) \<Rightarrow>
                          (True, print [Txt ''File moved from '', Txt src, Txt '' to '', Txt dst,
                                        Txt '' successfully.''] st2)
                      | (False, st2) \<Rightarrow>
                          (False, print [Txt ''File copied but failed to delete original '',
                                         Txt src, Txt ''.''] st2))))"

subsection \<open>Bulk initialization\<close>

text \<open>
  A directory of the local file system: its entries that are not directories, and its
  subdirectories, each list in the order \<^verbatim>\<open>os.scandir\<close> gives them. \<^verbatim>\<open>os.walk\<close> yields the
  directory itself first and then walks each subdirectory in turn; \<open>root\<close> is kept as
  the names of the directories from the folder down.
\<close>

datatype dir = Dir "(string \<times> local_file) list" "(string \<times> dir) list"

fun walk :: "string list \<Rightarrow> dir \<Rightarrow> (string list \<times> (string \<times> local_file) list) list" where
  "walk root (Dir files subdirs) =
     (root, files) # concat (map (\<lambda>(name, d). walk (root @ [name]) d) subdirs)"

text \<open>
  \<^verbatim>\<open>os.path.relpath(os.path.join(root, file_name), folder_path)\<close> on POSIX paths, for a
  \<open>root\<close> that \<^verbatim>\<open>os.walk(folder_path)\<close> yields: the directory names below the folder and
  the file name, joined by \<open>/\<close>.
\<close>

fun relpath :: "string list \<Rightarrow> string \<Rightarrow> string" where
  "relpath [] file_name = file_name"
| "relpath (d # ds) file_name = d @ ''/'' @ relpath ds file_name"

text \<open>Test mode: the two nested loops of lines 238 to 241.\<close>

fun report_files :: "string list \<Rightarrow> (string \<times> local_file) list \<Rightarrow> 'w state \<Rightarrow> 'w state" where
  "report_files root [] st = st"
| "report_files root ((file_name, lf) # files) st =
     report_files root files (print [Txt '' -'', Txt '' '', Txt (relpath root file_name)] st)"

fun report_walk ::
  "(string list \<times> (string \<times> local_file) list) list \<Rightarrow> 'w state \<Rightarrow> 'w state" where
  "report_walk [] st = st"
| "report_walk ((root, files) # rest) st = report_walk rest (report_files root files st)"

text \<open>
  Permanent mode: the body of the inner loop, lines 247 to 266. \<^verbatim>\<open>os.path.getsize\<close>,
  \<^verbatim>\<open>open\<close> and \<^verbatim>\<open>requests.put\<close> all stand inside the \<^verbatim>\<open>try\<close>, whose handler prints and
  lets the loop go on; only a response with a status other than 200 returns.
\<close>

definition upload_one ::
  "'w net \<Rightarrow> env \<Rightarrow> string \<Rightarrow> string list \<Rightarrow> string \<Rightarrow> local_file \<Rightarrow> 'w state
     \<Rightarrow> unit flow \<times> 'w state" where
  "upload_one net ev identifier root file_name lf st =
     (let relative_path = relpath root file_name;
          upload_url = ''https://s3.us.archive.org/'' @ identifier @ ''/'' @ relative_path;
          hs = s3_headers (the (S3_ACCESS_KEY ev)) (the (S3_SECRET_KEY ev));
          st0 = print [Txt (CHR 0x0A # ''Uploading file:''), Txt '' '', Txt relative_path] st
      in case lf of
           Missing m \<Rightarrow>
             (Next, print [Txt ''Error during upload:'', Txt '' '', Exc (OtherException m)] st0)
         | Unreadable m \<Rightarrow>
             (Next, print [Txt ''Error during upload:'', Txt '' '', Exc (OtherException m)] st0)
         | Content f \<Rightarrow>
             (case send net \<lparr>rq_method = PUT, rq_url = upload_url, rq_headers = hs,
                              rq_data = Bytes f, rq_timeout = None, rq_retries = None\<rparr> st0 of
                (Raises e, st') \<Rightarrow>
                  (Next, print [Txt ''Error during upload:'', Txt '' '', Exc e] st')
              | (Responds r, st') \<Rightarrow>
                  if status_code r \<noteq> 200
                  then (Return (),
                        print [Txt ''Error uploading '', Txt relative_path, Txt '': '',
                               Num (status_code r), Txt '' '', Txt (reason r)] st')
                  else (Next,
                        print [Txt (''File '' @ [CHR 0x27]), Txt relative_path,
                               Txt ''' uploaded successfully.''] st')))"

fun upload_files ::
  "'w net \<Rightarrow> env \<Rightarrow> string \<Rightarrow> string list \<Rightarrow> (string \<times> local_file) list \<Rightarrow> 'w state
     \<Rightarrow> unit flow \<times> 'w state" where
  "upload_files net ev identifier root [] st = (Next, st)"
| "upload_files net ev identifier root ((file_name, lf) # files) st =
     (case upload_one net ev identifier root file_name lf st of
        (Return u, st') \<Rightarrow> (Return u, st')
      | (Raise e, st') \<Rightarrow> (Raise e, st')
      | (Next, st') \<Rightarrow> upload_files net ev identifier root files st')"

fun upload_walk ::
  "'w net \<Rightarrow> env \<Rightarrow> string \<Rightarrow> (string list \<times> (string \<times> local_file) list) list \<Rightarrow> 'w state
     \<Rightarrow> unit flow \<times> 'w state" where
  "upload_walk net ev identifier [] st = (Next, st)"
| "upload_walk net ev identifier ((root, files) # rest) st =
     (case upload_files net ev identifier root files st of
        (Return u, st') \<Rightarrow> (Return u, st')
      | (Raise e, st') \<Rightarrow> (Raise e, st')
      | (Next, st') \<Rightarrow> upload_walk net ev identifier rest st')"

text \<open>Lines 268 to 277.\<close>

definition metadata_post :: "string \<Rightarrow> (string \<times> string) list \<Rightarrow> request" where
  "metadata_post identifier metadata =
     \<lparr>rq_method = POST, rq_url = ''https://archive.org/metadata/'' @ identifier @ ''/metadata'',
      rq_headers = [], rq_data = Form metadata, rq_timeout = None, rq_retries = None\<rparr>"

definition add_metadata ::
  "'w net \<Rightarrow> string \<Rightarrow> (string \<times> string) list \<Rightarrow> 'w state \<Rightarrow> 'w state" where
  "add_metadata net identifier metadata st =
     (let st0 = print [Txt (CHR 0x0A # ''Adding metadata to the repository...'')] st
      in case send net (metadata_post identifier metadata) st0 of
           (Raises e, st') \<Rightarrow>
             print [Txt ''Error during metadata addition:'', Txt '' '', Exc e] st'
         | (Responds r, st') \<Rightarrow>
             if status_code r = 200
             then print [Txt ''Metadata added successfully.''] st'
             else print [Txt ''Error adding metadata: '', Num (status_code r), Txt '' '',
                         Txt (reason r)] st')"

text \<open>
  \<open>ls folder_path\<close> is the directory tree \<^verbatim>\<open>os.walk(folder_path)\<close> walks. The function
  returns \<^verbatim>\<open>None\<close> on every path, so the model returns the state only.
\<close>

definition initialize_repository ::
  "'w net \<Rightarrow> env \<Rightarrow> (string \<Rightarrow> dir) \<Rightarrow> string \<Rightarrow> string \<Rightarrow> (string \<times> string) list \<Rightarrow> string
     \<Rightarrow> 'w state \<Rightarrow> 'w state" where
  "initialize_repository net ev ls folder_path identifier metadata mode st =
     (let access_key = S3_ACCESS_KEY ev; secret_key = S3_SECRET_KEY ev in
      if falsy access_key \<or> falsy secret_key
      then print [Txt ''S3 access key or secret key is missing. Please set them as environment variables.''] st
      else if mode = ''Test''
      then
        (let st1 = print [Txt (CHR 0x0A # ''TEST MODE: Simulating repository creation...'')] st;
             st2 = print [Txt ''Folder path:'', Txt '' '', Txt folder_path] st1;
             st3 = print [Txt ''Identifier:'', Txt '' '', Txt identifier] st2;
             st4 = print [Txt ''Metadata:'', Txt '' '', Dict metadata] st3;
             st5 = print [Txt ''Files that would be uploaded:''] st4;
             st6 = report_walk (walk [] (ls folder_path)) st5
         in print [Txt (CHR 0x0A # ''No files uploaded. Test mode complete.'')] st6)
      else
        (case upload_walk net ev identifier (walk [] (ls folder_path)) st of
           (Return u, st') \<Rightarrow> st'
         | (Raise e, st') \<Rightarrow> st'
         | (Next, st') \<Rightarrow> add_metadata net identifier metadata st'))"

subsection \<open>The multi-file upload of the menu\<close>

text \<open>
  Lines 368 to 379 of \<^verbatim>\<open>main\<close>, after the prompts have produced \<open>identifier\<close>,
  \<open>directory\<close> and \<open>file_paths\<close>: the existence check, the upload loop with its
  \<open>success\<close> flag, and the final message.
\<close>

fun check_exist :: "(string \<Rightarrow> local_file) \<Rightarrow> string list \<Rightarrow> 'w state \<Rightarrow> unit flow \<times> 'w state" where
  "check_exist fs [] st = (Next, st)"
| "check_exist fs (file # rest) st =
     (if \<not> exists fs file
      then (Return (), print [Txt ''File not found: '', Txt file] st)
      else check_exist fs rest st)"

text \<open>
  The loop of lines 373 to 375. An exception of the call leaves the loop (\<open>Inl\<close>);
  otherwise the loop ends with the value of \<open>success\<close>.
\<close>

fun upload_each ::
  "'w net \<Rightarrow> env \<Rightarrow> (string \<Rightarrow> local_file) \<Rightarrow> string \<Rightarrow> string \<Rightarrow> string list \<Rightarrow> bool
     \<Rightarrow> 'w state \<Rightarrow> (exn + bool) \<times> 'w state" where
  "upload_each net ev fs identifier directory [] success st = (Inr success, st)"
| "upload_each net ev fs identifier directory (file_path # rest) success st =
     (case upload_file_with_progress net ev fs identifier file_path directory st of
        (Raise e, st') \<Rightarrow> (Inl e, st')
      | (Return b, st') \<Rightarrow>
          upload_each net ev fs identifier directory rest (if \<not> b then False else success) st'
      | (Next, st') \<Rightarrow> upload_each net ev fs identifier directory rest False st')"

definition main_upload_files ::
  "'w net \<Rightarrow> env \<Rightarrow> (string \<Rightarrow> local_file) \<Rightarrow> string \<Rightarrow> string \<Rightarrow> string list \<Rightarrow> 'w state
     \<Rightarrow> unit flow \<times> 'w state" where
  "main_upload_files net ev fs identifier directory file_paths st =
     (case check_exist fs file_paths st of
        (Return u, st1) \<Rightarrow> (Return u, st1)
      | (Raise e, st1) \<Rightarrow> (Raise e, st1)
      | (Next, st1) \<Rightarrow>
          (case upload_each net ev fs identifier directory file_paths True st1 of
             (Inl e, st2) \<Rightarrow> (Raise e, st2)
           | (Inr success, st2) \<Rightarrow>
               if success
               then (Next, print [Txt (CHR 0x0A # ''All files uploaded successfully!'')] st2)
               else (Next, print [Txt (CHR 0x0A # ''Some files failed to upload. Please check the errors and try again.'')] st2)))"

subsection \<open>Reference definitions\<close>

text \<open>
  The chunks of a file read \<open>n\<close> bytes at a time, and the outcomes a remote gives to a
  list of requests sent one after the other.
\<close>

function chunks :: "nat \<Rightarrow> 'a list \<Rightarrow> 'a list list" where
  "chunks n xs = (if n = 0 \<or> xs = [] then [] else take n xs # chunks n (drop n xs))"
  by pat_completeness auto
termination
  by (relation "measure (\<lambda>(n, xs). length xs)") auto

declare chunks.simps [simp del]

fun serve :: "'w net \<Rightarrow> request list \<Rightarrow> 'w \<Rightarrow> outcome list" where
  "serve net [] w = []"
| "serve net (rq # rqs) w = (case net rq w of (oc, w') \<Rightarrow> oc # serve net rqs w')"

fun served :: "'w net \<Rightarrow> request list \<Rightarrow> 'w \<Rightarrow> 'w" where
  "served net [] w = w"
| "served net (rq # rqs) w = served net rqs (snd (net rq w))"

definition ok200 :: "outcome \<Rightarrow> bool" where
  "ok200 oc = (case oc of Raises e \<Rightarrow> False | Responds r \<Rightarrow> status_code r = 200)"

text \<open>The copy PUT counts as done on 200 or 201, the DELETE on 200 or 204.\<close>

definition copied :: "outcome \<Rightarrow> bool" where
  "copied oc =
     (case oc of Raises e \<Rightarrow> False | Responds r \<Rightarrow> status_code r = 200 \<or> status_code r = 201)"

definition deleted :: "outcome \<Rightarrow> bool" where
  "deleted oc =
     (case oc of Raises e \<Rightarrow> False | Responds r \<Rightarrow> status_code r = 200 \<or> status_code r = 204)"

text \<open>
  A remote store for concrete runs: an object store keyed by URL. A request that
  \<open>refuse\<close> selects is answered 503 and changes nothing; a PUT with a copy-source
  header copies the source object, any other PUT stores the body, a DELETE removes the
  object; a GET answers with the listing \<open>doc\<close>.
\<close>

type_synonym store = "string \<rightharpoonup> string"

definition answer :: "nat \<Rightarrow> string \<Rightarrow> response" where
  "answer code text = \<lparr>status_code = code, reason = text, json = Inr None\<rparr>"

definition store_net :: "(request \<Rightarrow> bool) \<Rightarrow> store net" where
  "store_net refuse rq w =
     (if refuse rq then (Responds (answer 503 ''Service Unavailable''), w)
      else
        (case rq_method rq of
           PUT \<Rightarrow>
             (case map_of (rq_headers rq) ''x-amz-copy-source'' of
                Some src \<Rightarrow>
                  (case w (''https://s3.us.archive.org'' @ src) of
                     Some c \<Rightarrow> (Responds (answer 200 ''OK''), w(rq_url rq \<mapsto> c))
                   | None \<Rightarrow> (Responds (answer 404 ''Not Found''), w))
              | None \<Rightarrow>
                  (case rq_data rq of
                     Bytes b \<Rightarrow> (Responds (answer 200 ''OK''), w(rq_url rq \<mapsto> b))
                   | _ \<Rightarrow> (Responds (answer 200 ''OK''), w(rq_url rq \<mapsto> []))))
         | DELETE \<Rightarrow> (Responds (answer 204 ''No Content''), w(rq_url rq := None))
         | _ \<Rightarrow> (Responds (answer 200 ''OK''), w)))"

definition creds :: env where
  "creds = \<lparr>S3_ACCESS_KEY = Some ''key'', S3_SECRET_KEY = Some ''secret''\<rparr>"

definition start :: "'w \<Rightarrow> 'w state" where
  "start w = \<lparr>remote = w, issued = [], printed = []\<rparr>"

text \<open>
  A name has a component that ends in \<open>.thumbs\<close>; a remote that answers every request
  with status 200 and the given listing.
\<close>

definition thumbs_component :: "string \<Rightarrow> bool" where
  "thumbs_component name =
     (\<exists>part \<in> set (split_on (CHR ''/'') name). \<exists>pre. part = pre @ ''.thumbs'')"

definition listing_net :: "file_record list \<Rightarrow> unit net" where
  "listing_net files rq w =
     (Responds \<lparr>status_code = 200, reason = ''OK'', json = Inr (Some files)\<rparr>, w)"

section \<open>Theorems\<close>

subsection \<open>Identifier extraction\<close>

lemma match_here_drop:
  "match_here (drop i s) =
     (if marker_at s i \<and> segment_at s i \<noteq> [] then Some (segment_at s i) else None)"
  by (simp add: match_here_def marker_at_def segment_at_def Let_def add.commute)

lemma re_search_None_iff:
  "re_search s = None \<longleftrightarrow> (\<forall>i. match_here (drop i s) = None)"
proof (induction s)
  case Nil
  then show ?case by simp
next
  case (Cons c cs)
  show ?case
  proof
    assume a: "re_search (c # cs) = None"
    then have h: "match_here (c # cs) = None" and t: "re_search cs = None"
      by (auto split: option.splits)
    show "\<forall>i. match_here (drop i (c # cs)) = None"
    proof
      fix i
      show "match_here (drop i (c # cs)) = None"
      proof (cases i)
        case 0
        then show ?thesis using h by simp
      next
        case (Suc j)
        then show ?thesis using t Cons.IH by simp
      qed
    qed
  next
    assume a: "\<forall>i. match_here (drop i (c # cs)) = None"
    then have "match_here (drop 0 (c # cs)) = None" by blast
    then have h: "match_here (c # cs) = None" by simp
    have "\<forall>i. match_here (drop i cs) = None"
    proof
      fix i
      from a have "match_here (drop (Suc i) (c # cs)) = None" by blast
      then show "match_here (drop i cs) = None" by simp
    qed
    then have "re_search cs = None" using Cons.IH by simp
    then show "re_search (c # cs) = None" using h by simp
  qed
qed

lemma re_search_first:
  "match_here (drop i s) = Some g \<Longrightarrow> (\<forall>j<i. match_here (drop j s) = None)
     \<Longrightarrow> re_search s = Some g"
proof (induction s arbitrary: i)
  case Nil
  then show ?case by simp
next
  case (Cons c cs)
  show ?case
  proof (cases i)
    case 0
    then show ?thesis using Cons.prems(1) by simp
  next
    case (Suc k)
    have h: "match_here (c # cs) = None"
      using Cons.prems(2) Suc by (metis drop0 zero_less_Suc)
    have m: "match_here (drop k cs) = Some g"
      using Cons.prems(1) Suc by simp
    have "\<forall>j<k. match_here (drop j cs) = None"
    proof (intro allI impI)
      fix j assume "j < k"
      then have "Suc j < i" using Suc by simp
      then have "match_here (drop (Suc j) (c # cs)) = None" using Cons.prems(2) by blast
      then show "match_here (drop j cs) = None" by simp
    qed
    then have "re_search cs = Some g" using Cons.IH [OF m] by blast
    then show ?thesis using h by simp
  qed
qed

text \<open>
  C6. If the URL contains the marker at position \<open>i\<close> followed by a non-empty segment
  (the characters up to the next \<open>/\<close> or the end), and no earlier position holds the
  marker followed by a non-empty segment, then \<open>get_repo_identifier\<close> prints nothing
  and returns exactly that segment. If the URL does not contain the marker at all, it
  prints one failure line and returns \<open>None\<close>.
\<close>

theorem get_repo_identifier_marker:
  "(marker_at url i \<and> segment_at url i \<noteq> [] \<and>
      (\<forall>j<i. marker_at url j \<longrightarrow> segment_at url j = [])
     \<longrightarrow> get_repo_identifier url = ([], Some (segment_at url i)))
   \<and> ((\<forall>j. \<not> marker_at url j)
     \<longrightarrow> get_repo_identifier url =
          ([[Txt ''Invalid Internet Archive URL. Please provide a valid link.'']], None))"
proof (intro conjI impI)
  assume a: "marker_at url i \<and> segment_at url i \<noteq> [] \<and>
      (\<forall>j<i. marker_at url j \<longrightarrow> segment_at url j = [])"
  have m: "match_here (drop i url) = Some (segment_at url i)"
    using a by (simp add: match_here_drop)
  have n: "\<forall>j<i. match_here (drop j url) = None"
    using a by (auto simp: match_here_drop)
  have "re_search url = Some (segment_at url i)"
    using re_search_first [OF m n] .
  then show "get_repo_identifier url = ([], Some (segment_at url i))"
    by (simp add: get_repo_identifier_def)
next
  assume a: "\<forall>j. \<not> marker_at url j"
  then have "\<forall>i. match_here (drop i url) = None"
    by (simp add: match_here_drop)
  then have "re_search url = None"
    by (simp add: re_search_None_iff)
  then show "get_repo_identifier url =
      ([[Txt ''Invalid Internet Archive URL. Please provide a valid link.'']], None)"
    by (simp add: get_repo_identifier_def)
qed

lemma marker_at_length: "marker_at s j \<Longrightarrow> j + length marker \<le> length s"
proof -
  assume "marker_at s j"
  then have "length (take (length marker) (drop j s)) = length marker"
    by (simp add: marker_at_def)
  then show ?thesis by (simp add: marker_def)
qed

lemma details_url_marker:
  "marker_at ''https://archive.org/details/foo/bar'' 8
   \<and> segment_at ''https://archive.org/details/foo/bar'' 8 = ''foo''
   \<and> (\<forall>j<8. marker_at ''https://archive.org/details/foo/bar'' j
         \<longrightarrow> segment_at ''https://archive.org/details/foo/bar'' j = [])"
  by (simp add: marker_at_def segment_at_def marker_def All_less_Suc numeral_eq_Suc
      del: One_nat_def)

lemma other_url_no_marker: "\<forall>j. \<not> marker_at ''https://archive.org/x'' j"
proof
  fix j
  show "\<not> marker_at ''https://archive.org/x'' j"
  proof
    assume a: "marker_at ''https://archive.org/x'' j"
    from marker_at_length [OF a] have "j \<le> 1" by (simp add: marker_def)
    then have "j = 0 \<or> j = 1" by arith
    then show False using a by (auto simp: marker_at_def marker_def)
  qed
qed

theorem get_repo_identifier_marker_witness:
  "get_repo_identifier ''https://archive.org/details/foo/bar'' = ([], Some ''foo'')
   \<and> get_repo_identifier ''https://archive.org/x'' =
          ([[Txt ''Invalid Internet Archive URL. Please provide a valid link.'']], None)"
  using get_repo_identifier_marker [of "''https://archive.org/details/foo/bar''" 8]
    get_repo_identifier_marker [of "''https://archive.org/x''" 0]
    details_url_marker other_url_no_marker by simp

subsection \<open>Listing\<close>

lemma endswith_iff: "endswith s suffix \<longleftrightarrow> (\<exists>pre. s = pre @ suffix)"
proof
  assume a: "endswith s suffix"
  then have "s = take (length s - length suffix) s @ suffix"
    by (metis append_take_drop_id endswith_def)
  then show "\<exists>pre. s = pre @ suffix" ..
next
  assume "\<exists>pre. s = pre @ suffix"
  then show "endswith s suffix" by (auto simp: endswith_def)
qed

lemma excluded_iff:
  "list_ex (\<lambda>part. endswith part ''.thumbs'') (split_on (CHR ''/'') name)
     \<longleftrightarrow> thumbs_component name"
  by (simp add: list_ex_iff endswith_iff thumbs_component_def)

lemma collect_names_acc:
  "collect_names files acc =
     acc @ filter (\<lambda>name. \<not> thumbs_component name) (List.map_filter (\<lambda>f. f ''name'') files)"
proof (induction files arbitrary: acc)
  case Nil
  then show ?case by (simp add: List.map_filter_simps)
next
  case (Cons f files)
  show ?case
  proof (cases "f ''name''")
    case None
    then show ?thesis using Cons.IH by (simp add: List.map_filter_simps)
  next
    case (Some name)
    then show ?thesis using Cons.IH
      by (simp add: List.map_filter_simps excluded_iff Let_def del: split_on.simps)
  qed
qed

text \<open>
  C7. When the GET is answered with status 200 and a document whose \<open>files\<close> array is
  \<open>files\<close>, \<open>list_repository_files\<close> returns the names of the records that have a
  name, in the order received, without exactly those names that have a component (split
  on \<open>/\<close>) ending in \<open>.thumbs\<close>. On the listing \<open>a/b.jpg\<close>, \<open>a/b.thumbs/c.jpg\<close>,
  \<open>x.thumbs\<close> the loop keeps \<open>a/b.jpg\<close> only.
\<close>

theorem list_repository_files_filter:
  "(send net \<lparr>rq_method = GET, rq_url = ''https://archive.org/metadata/'' @ identifier,
              rq_headers = [], rq_data = NoBody, rq_timeout = None, rq_retries = None\<rparr> st
      = (Responds r, st') \<and> status_code r = 200 \<and> json r = Inr (Some files)
    \<longrightarrow> fst (list_repository_files net identifier st) =
          filter (\<lambda>name. \<not> thumbs_component name) (List.map_filter (\<lambda>f. f ''name'') files))
   \<and> collect_names [[''name'' \<mapsto> ''a/b.jpg''], [''name'' \<mapsto> ''a/b.thumbs/c.jpg''],
                   [''name'' \<mapsto> ''x.thumbs'']] [] = [''a/b.jpg'']"
proof (intro conjI impI)
  assume a: "send net \<lparr>rq_method = GET, rq_url = ''https://archive.org/metadata/'' @ identifier,
              rq_headers = [], rq_data = NoBody, rq_timeout = None, rq_retries = None\<rparr> st
      = (Responds r, st') \<and> status_code r = 200 \<and> json r = Inr (Some files)"
  then show "fst (list_repository_files net identifier st) =
          filter (\<lambda>name. \<not> thumbs_component name) (List.map_filter (\<lambda>f. f ''name'') files)"
    by (simp add: list_repository_files_def Let_def collect_names_acc)
next
  show "collect_names [[''name'' \<mapsto> ''a/b.jpg''], [''name'' \<mapsto> ''a/b.thumbs/c.jpg''],
                   [''name'' \<mapsto> ''x.thumbs'']] [] = [''a/b.jpg'']"
    by (simp add: endswith_def)
qed

lemma example_filtered:
  "filter (\<lambda>name. \<not> thumbs_component name)
     (List.map_filter (\<lambda>f. f ''name'')
        [[''name'' \<mapsto> ''a/b.jpg''], [''name'' \<mapsto> ''a/b.thumbs/c.jpg''],
         [''name'' \<mapsto> ''x.thumbs''], [''size'' \<mapsto> ''3'']]) = [''a/b.jpg'']"
  by (simp add: List.map_filter_simps excluded_iff [symmetric] endswith_def)

theorem list_repository_files_filter_witness:
  "send (listing_net [[''name'' \<mapsto> ''a/b.jpg''], [''name'' \<mapsto> ''a/b.thumbs/c.jpg''],
                      [''name'' \<mapsto> ''x.thumbs''], [''size'' \<mapsto> ''3'']])
        \<lparr>rq_method = GET, rq_url = ''https://archive.org/metadata/item'',
              rq_headers = [], rq_data = NoBody, rq_timeout = None, rq_retries = None\<rparr> (start ())
     = (Responds \<lparr>status_code = 200, reason = ''OK'',
                  json = Inr (Some [[''name'' \<mapsto> ''a/b.jpg''], [''name'' \<mapsto> ''a/b.thumbs/c.jpg''],
                      [''name'' \<mapsto> ''x.thumbs''], [''size'' \<mapsto> ''3'']])\<rparr>,
        \<lparr>remote = (), issued = [\<lparr>rq_method = GET, rq_url = ''https://archive.org/metadata/item'',
              rq_headers = [], rq_data = NoBody, rq_timeout = None, rq_retries = None\<rparr>],
         printed = []\<rparr>)
   \<and> fst (list_repository_files
        (listing_net [[''name'' \<mapsto> ''a/b.jpg''], [''name'' \<mapsto> ''a/b.thumbs/c.jpg''],
                      [''name'' \<mapsto> ''x.thumbs''], [''size'' \<mapsto> ''3'']]) ''item'' (start ()))
     = [''a/b.jpg'']"
proof -
  let ?L = "[[''name'' \<mapsto> ''a/b.jpg''], [''name'' \<mapsto> ''a/b.thumbs/c.jpg''],
             [''name'' \<mapsto> ''x.thumbs''], [''size'' \<mapsto> ''3'']] :: file_record list"
  let ?rq = "\<lparr>rq_method = GET, rq_url = ''https://archive.org/metadata/item'',
              rq_headers = [], rq_data = NoBody, rq_timeout = None, rq_retries = None\<rparr>"
  let ?r = "\<lparr>status_code = 200, reason = ''OK'', json = Inr (Some ?L)\<rparr>"
  let ?st' = "\<lparr>remote = (), issued = [?rq], printed = []\<rparr>"
  have s: "send (listing_net ?L) ?rq (start ()) = (Responds ?r, ?st')"
    by (simp add: send_def listing_net_def start_def)
  have "fst (list_repository_files (listing_net ?L) ''item'' (start ())) =
          filter (\<lambda>name. \<not> thumbs_component name) (List.map_filter (\<lambda>f. f ''name'') ?L)"
    using list_repository_files_filter [of "listing_net ?L" "''item''" "start ()" ?r ?st' ?L] s
    by simp
  then show ?thesis using s by (simp only: example_filtered simp_thms)
qed

end
